theory Spec2Isabelle
  imports
    Complex_Main
    "HOL-Library.AList"
    "HOL-Library.Char_ord"
    "HOL-Library.List_Lexorder"
    "HOL-Library.Multiset"
begin

section \<open>Python values shared by all components\<close>

text \<open>
  Exceptions are values: the constructor is the Python exception class, the string its
  message. Every function that can raise returns \<open>pyerr + 'a\<close>. \<open>Unmodelled\<close> is not a
  Python exception: it marks an input on which the code runs into behaviour of pandas
  that this development does not describe (two columns with one label, a list of rows
  that mixes arrays and objects).
\<close>

datatype pyerr =
    ValueError string
  | TypeError string
  | KeyError string
  | IndexError string
  | RuntimeError string
  | NotImplementedError string
  | OverflowError string
  | ZeroDivisionError string
  | AttributeError string
  | Unmodelled string

definition bindE :: "pyerr + 'a \<Rightarrow> ('a \<Rightarrow> pyerr + 'b) \<Rightarrow> pyerr + 'b" where
  "bindE m f = (case m of Inl e \<Rightarrow> Inl e | Inr x \<Rightarrow> f x)"

fun mapE :: "('a \<Rightarrow> pyerr + 'b) \<Rightarrow> 'a list \<Rightarrow> pyerr + 'b list" where
  "mapE f [] = Inr []"
| "mapE f (x # xs) =
     (case f x of Inl e \<Rightarrow> Inl e
      | Inr y \<Rightarrow> (case mapE f xs of Inl e \<Rightarrow> Inl e | Inr ys \<Rightarrow> Inr (y # ys)))"

subsection \<open>Strings\<close>

text \<open>
  \<open>str.lower\<close>, \<open>str.upper\<close> and \<open>repr\<close> on ASCII text; characters outside ASCII
  are left as they are.
\<close>

definition lower_char :: "char \<Rightarrow> char" where
  "lower_char c =
     (let n = (of_char c :: nat) in if 65 \<le> n \<and> n \<le> 90 then char_of (n + 32) else c)"


definition lower :: "string \<Rightarrow> string" where
  "lower s = map lower_char s"


definition squote :: char where
  "squote = CHR 0x27"

definition dquote :: char where
  "dquote = CHR 0x22"

definition backslash :: char where
  "backslash = CHR 0x5C"

definition repr_char :: "char \<Rightarrow> char \<Rightarrow> string" where
  "repr_char q c =
     (if c = backslash \<or> c = q then [backslash, c]
      else if c = CHR 0x0A then [backslash, CHR ''n'']
      else if c = CHR 0x0D then [backslash, CHR ''r'']
      else if c = CHR 0x09 then [backslash, CHR ''t'']
      else [c])"

definition repr_str :: "string \<Rightarrow> string" where
  "repr_str s =
     (let q = (if squote \<in> set s \<and> dquote \<notin> set s then dquote else squote)
      in q # concat (map (repr_char q) s) @ [q])"

fun join :: "string \<Rightarrow> string list \<Rightarrow> string" where
  "join sep [] = []"
| "join sep [x] = x"
| "join sep (x # y # ys) = x @ sep @ join sep (y # ys)"

definition digit_char :: "int \<Rightarrow> char" where
  "digit_char n = char_of (48 + n mod 10)"

function str_digits :: "int \<Rightarrow> string" where
  "str_digits n = (if n < 10 then [digit_char n] else str_digits (n div 10) @ [digit_char n])"
  by pat_completeness auto
termination
  by (relation "measure nat") auto

declare str_digits.simps [simp del]

definition str_int :: "int \<Rightarrow> string" where
  "str_int i = (if i < 0 then CHR ''-'' # str_digits (- i) else str_digits i)"

section \<open>Source factory (market\_data/\_\_init\_\_.py)\<close>

datatype source_class =
    BinanceFuturesSource
  | BybitFuturesSource
  | OkxFuturesSource
  | KrakenFuturesSource
  | CoinbaseSource
  | PhemexFuturesSource
  | UpbitSource

text \<open>The module-level dict \<open>_REGISTRY\<close>, in insertion order.\<close>

type_synonym registry = "(string \<times> source_class) list"

definition ensure_registry :: "registry \<Rightarrow> registry" where
  "ensure_registry reg =
     (if reg \<noteq> [] then reg
      else [(''binance'', BinanceFuturesSource), (''kraken'', KrakenFuturesSource)])"

text \<open>
  \<open>create_source\<close> returns the class it instantiates (or the exception) together with
  the registry it leaves behind.
\<close>

definition create_source :: "registry \<Rightarrow> string \<Rightarrow> (pyerr + source_class) \<times> registry" where
  "create_source reg0 exchange =
     (let reg = ensure_registry reg0 in
      case map_of reg (lower exchange) of
        None \<Rightarrow>
          (Inl (ValueError (''Unsupported exchange: '' @ repr_str exchange
                  @ ''. Supported: '' @ join '', '' (sort (map fst reg)))), reg)
      | Some cls \<Rightarrow> (Inr cls, reg))"

section \<open>HTTP transport (binance\_client/base.py, \<open>BinanceBaseClient._request\<close>)\<close>

text \<open>
  A response of \<open>session.get\<close>: its status code, its text (\<open>resp.text\<close>) and the parsed JSON body
  (\<open>resp.json()\<close>). The session is a mock: a function from the number of the call within one
  \<open>_request\<close> (from 0) to what the call does, which is to return a response or to raise a
  \<open>requests.exceptions.RequestException\<close> with the given message.
\<close>

record 'j http_response =
  status_code :: int
  resp_text :: string
  resp_json :: 'j

datatype 'j get_outcome = Response "'j http_response" | RequestException string

text \<open>The effects of \<open>_request\<close>, in order: calls of \<open>session.get\<close> and of \<open>time.sleep\<close>.\<close>

datatype event = HttpGet string | Sleep real

fun is_get :: "event \<Rightarrow> bool" where
  "is_get (HttpGet u) = True"
| "is_get (Sleep d) = False"


definition default_rate_limit_sleep :: real where
  "default_rate_limit_sleep = 1 / 10"

text \<open>
  The loop \<open>for attempt in range(self.max_retries)\<close>, from iteration \<open>attempt\<close> with
  \<open>k\<close> iterations left. \<open>time.sleep\<close> raises a value error on a negative length.
\<close>

fun request_from ::
  "(nat \<Rightarrow> 'j get_outcome) \<Rightarrow> int \<Rightarrow> real \<Rightarrow> string \<Rightarrow> nat \<Rightarrow> nat
     \<Rightarrow> (pyerr + 'j) \<times> event list" where
  "request_from session max_retries rate_limit_sleep url 0 attempt =
     (Inl (RuntimeError (''Max retries ('' @ str_int max_retries @ '') exceeded for '' @ url)),
      [])"
| "request_from session max_retries rate_limit_sleep url (Suc k) attempt =
     (case session attempt of
        Response resp \<Rightarrow>
          if status_code resp = 200 then
            (if rate_limit_sleep < 0
             then (Inl (ValueError ''sleep length must be non-negative''), [HttpGet url])
             else (Inr (resp_json resp), [HttpGet url, Sleep rate_limit_sleep]))
          else if status_code resp = 429 then
            (case request_from session max_retries rate_limit_sleep url k (Suc attempt) of
               (r, tr) \<Rightarrow> (r, HttpGet url # Sleep (2 ^ (attempt + 1)) # tr))
          else if status_code resp = 418 then
            (Inl (RuntimeError (''IP banned by Binance: '' @ resp_text resp)), [HttpGet url])
          else
            (Inl (RuntimeError (''HTTP '' @ str_int (status_code resp) @ '': '' @ resp_text resp)),
             [HttpGet url])
      | RequestException exc \<Rightarrow>
          if int attempt = max_retries - 1 then
            (Inl (RuntimeError (''Request failed after '' @ str_int max_retries
                    @ '' retries: '' @ exc)), [HttpGet url])
          else
            (case request_from session max_retries rate_limit_sleep url k (Suc attempt) of
               (r, tr) \<Rightarrow> (r, HttpGet url # Sleep (2 ^ (attempt + 1)) # tr)))"

definition request ::
  "(nat \<Rightarrow> 'j get_outcome) \<Rightarrow> int \<Rightarrow> real \<Rightarrow> string \<Rightarrow> (pyerr + 'j) \<times> event list" where
  "request session max_retries rate_limit_sleep url =
     request_from session max_retries rate_limit_sleep url (nat max_retries) 0"

text \<open>
  A mock with a list of outcomes served in order and a default once the list is used up
  (\<open>side_effect\<close>, then \<open>return_value\<close>).
\<close>

definition mock_seq :: "'a list \<Rightarrow> 'a \<Rightarrow> nat \<Rightarrow> 'a" where
  "mock_seq xs d n = (if n < length xs then xs ! n else d)"

definition status_of :: "'j get_outcome \<Rightarrow> int option" where
  "status_of out = (case out of Response resp \<Rightarrow> Some (status_code resp) | RequestException exc \<Rightarrow> None)"

definition text_of :: "'j get_outcome \<Rightarrow> string" where
  "text_of out = (case out of Response resp \<Rightarrow> resp_text resp | RequestException exc \<Rightarrow> exc)"

definition status_error :: "int \<Rightarrow> string \<Rightarrow> pyerr" where
  "status_error st body =
     (if st = 418 then RuntimeError (''IP banned by Binance: '' @ body)
      else RuntimeError (''HTTP '' @ str_int st @ '': '' @ body))"

text \<open>The calls and back-off sleeps of \<open>n\<close> rate-limited attempts starting at attempt \<open>a\<close>.\<close>

fun backoff_trace :: "string \<Rightarrow> nat \<Rightarrow> nat \<Rightarrow> event list" where
  "backoff_trace url a 0 = []"
| "backoff_trace url a (Suc n) = HttpGet url # Sleep (2 ^ (a + 1)) # backoff_trace url (Suc a) n"

definition reply :: "int \<Rightarrow> string \<Rightarrow> unit get_outcome" where
  "reply st body = Response \<lparr>status_code = st, resp_text = body, resp_json = ()\<rparr>"

section \<open>Time conversion (binance\_client/base.py, \<open>to_milliseconds\<close>)\<close>

text \<open>
  Python floats are carried as exact reals, with the three special values apart; rounding
  to binary64 is not modelled. \<open>int(x)\<close> truncates toward zero and raises on NaN and on
  the infinities.
\<close>

datatype pyfloat = Fin real | PInf | NInf | NaN

definition trunc :: "real \<Rightarrow> int" where
  "trunc r = (if 0 \<le> r then \<lfloor>r\<rfloor> else \<lceil>r\<rceil>)"

definition int_of_float :: "pyfloat \<Rightarrow> pyerr + int" where
  "int_of_float f =
     (case f of
        Fin r \<Rightarrow> Inr (trunc r)
      | NaN \<Rightarrow> Inl (ValueError ''cannot convert float NaN to integer'')
      | PInf \<Rightarrow> Inl (OverflowError ''cannot convert float infinity to integer'')
      | NInf \<Rightarrow> Inl (OverflowError ''cannot convert float infinity to integer''))"

text \<open>
  \<open>datetime.datetime\<close>: the wall-clock fields and \<open>tzinfo\<close>, which is \<open>None\<close> for a
  naive value and otherwise the offset from UTC in microseconds.
\<close>

record datetime =
  year :: int
  month :: int
  day :: int
  hour :: int
  minute :: int
  second :: int
  microsecond :: int
  tzinfo :: "int option"

definition is_leap :: "int \<Rightarrow> bool" where
  "is_leap y = (y mod 4 = 0 \<and> (y mod 100 \<noteq> 0 \<or> y mod 400 = 0))"

definition days_before_year :: "int \<Rightarrow> int" where
  "days_before_year y = (y - 1) * 365 + (y - 1) div 4 - (y - 1) div 100 + (y - 1) div 400"

definition days_in_month :: "int \<Rightarrow> int \<Rightarrow> int" where
  "days_in_month y m =
     (if m = 2 \<and> is_leap y then 29
      else [31, 28, 31, 30, 31, 30, 31, 31, 30, 31, 30, 31] ! nat (m - 1))"

definition days_before_month :: "int \<Rightarrow> int \<Rightarrow> int" where
  "days_before_month y m =
     [0, 31, 59, 90, 120, 151, 181, 212, 243, 273, 304, 334] ! nat (m - 1)
       + (if 2 < m \<and> is_leap y then 1 else 0)"

text \<open>The proleptic Gregorian ordinal of a date; 1970-01-01 has ordinal 719163.\<close>

definition ymd2ord :: "int \<Rightarrow> int \<Rightarrow> int \<Rightarrow> int" where
  "ymd2ord y m d = days_before_year y + days_before_month y m + d"

text \<open>The constructor \<open>datetime(y, m, d, hh, mm, ss)\<close> with its range checks.\<close>

definition datetime_new ::
  "int \<Rightarrow> int \<Rightarrow> int \<Rightarrow> int \<Rightarrow> int \<Rightarrow> int \<Rightarrow> pyerr + datetime" where
  "datetime_new y m d hh mm ss =
     (if \<not> (1 \<le> y \<and> y \<le> 9999) then Inl (ValueError ''year is out of range'')
      else if \<not> (1 \<le> m \<and> m \<le> 12) then Inl (ValueError ''month must be in 1..12'')
      else if \<not> (1 \<le> d \<and> d \<le> days_in_month y m)
        then Inl (ValueError ''day is out of range for month'')
      else if \<not> (0 \<le> hh \<and> hh \<le> 23) then Inl (ValueError ''hour must be in 0..23'')
      else if \<not> (0 \<le> mm \<and> mm \<le> 59) then Inl (ValueError ''minute must be in 0..59'')
      else if \<not> (0 \<le> ss \<and> ss \<le> 59) then Inl (ValueError ''second must be in 0..59'')
      else Inr \<lparr>year = y, month = m, day = d, hour = hh, minute = mm, second = ss,
                microsecond = 0, tzinfo = None\<rparr>)"

subsection \<open>\<open>datetime.strptime\<close>\<close>

text \<open>
  \<open>strptime\<close> as CPython's \<open>_strptime\<close> does it for the directives the two formats use:
  the format becomes a regular expression (a directive is an alternation of character
  class sequences, a run of white space in the format is \<open>\s+\<close>, any other character is
  itself), the expression is matched at the start of the string with the alternatives tried
  in order, text left over after the first match is an error, and the fields found go to
  the \<open>datetime\<close> constructor.
\<close>

definition is_space :: "char \<Rightarrow> bool" where
  "is_space c = (c \<in> set [CHR '' '', CHR 0x09, CHR 0x0A, CHR 0x0B, CHR 0x0C, CHR 0x0D,
                          CHR 0x1C, CHR 0x1D, CHR 0x1E, CHR 0x1F, CHR 0x85, CHR 0xA0])"

definition is_digit :: "char \<Rightarrow> bool" where
  "is_digit c = (CHR ''0'' \<le> c \<and> c \<le> CHR ''9'')"

fun digits_val :: "int \<Rightarrow> string \<Rightarrow> int" where
  "digits_val acc [] = acc"
| "digits_val acc (c # cs) = digits_val (acc * 10 + (int (of_char c) - 48)) cs"

datatype fmt_item = Dir char | Spaces | Lit char

function compile :: "string \<Rightarrow> fmt_item list" where
  "compile [] = []"
| "compile (c # cs) =
     (if c = CHR ''%'' then (case cs of [] \<Rightarrow> [Lit c] | d # ds \<Rightarrow> Dir d # compile ds)
      else if is_space c then Spaces # compile (dropWhile is_space cs)
      else Lit c # compile cs)"
  by pat_completeness auto
termination
  by (relation "measure length") (auto simp: length_dropWhile_le le_imp_less_Suc)

type_synonym char_range = "char \<times> char"

definition in_range :: "char_range \<Rightarrow> char \<Rightarrow> bool" where
  "in_range r c = (fst r \<le> c \<and> c \<le> snd r)"

fun match_alt :: "char_range list \<Rightarrow> string \<Rightarrow> (string \<times> string) option" where
  "match_alt [] s = Some ([], s)"
| "match_alt (r # rs) [] = None"
| "match_alt (r # rs) (c # cs) =
     (if in_range r c
      then (case match_alt rs cs of None \<Rightarrow> None | Some (m, rest) \<Rightarrow> Some (c # m, rest))
      else None)"

definition just :: "char \<Rightarrow> char_range" where
  "just c = (c, c)"

definition dig :: char_range where
  "dig = (CHR ''0'', CHR ''9'')"

definition directive_alts :: "char \<Rightarrow> char_range list list" where
  "directive_alts c =
     (if c = CHR ''Y'' then [[dig, dig, dig, dig]]
      else if c = CHR ''m'' then
        [[just CHR ''1'', (CHR ''0'', CHR ''2'')], [just CHR ''0'', (CHR ''1'', CHR ''9'')],
         [(CHR ''1'', CHR ''9'')]]
      else if c = CHR ''d'' then
        [[just CHR ''3'', (CHR ''0'', CHR ''1'')], [(CHR ''1'', CHR ''2''), dig],
         [just CHR ''0'', (CHR ''1'', CHR ''9'')], [(CHR ''1'', CHR ''9'')],
         [just CHR '' '', (CHR ''1'', CHR ''9'')]]
      else if c = CHR ''H'' then
        [[just CHR ''2'', (CHR ''0'', CHR ''3'')], [(CHR ''0'', CHR ''1''), dig], [dig]]
      else if c = CHR ''M'' then
        [[(CHR ''0'', CHR ''5''), dig], [dig]]
      else if c = CHR ''S'' then
        [[just CHR ''6'', (CHR ''0'', CHR ''1'')], [(CHR ''0'', CHR ''5''), dig], [dig]]
      else [])"

type_synonym found = "(char \<times> int) list"

definition match_item :: "fmt_item \<Rightarrow> string \<Rightarrow> (found \<times> string) list" where
  "match_item it s =
     (case it of
        Dir c \<Rightarrow>
          map (\<lambda>(m, rest). ([(c, digits_val 0 (filter is_digit m))], rest))
            (List.map_filter (\<lambda>alt. match_alt alt s) (directive_alts c))
      | Spaces \<Rightarrow>
          map (\<lambda>k. ([], drop k s)) (rev [1 ..< Suc (length (takeWhile is_space s))])
      | Lit c \<Rightarrow>
          (case s of [] \<Rightarrow> [] | x # xs \<Rightarrow> if x = c then [([], xs)] else []))"

fun matches :: "fmt_item list \<Rightarrow> string \<Rightarrow> (found \<times> string) list" where
  "matches [] s = [([], s)]"
| "matches (it # its) s =
     concat (map (\<lambda>(b, r). map (\<lambda>(bs, r'). (b @ bs, r')) (matches its r)) (match_item it s))"

definition group :: "found \<Rightarrow> char \<Rightarrow> int \<Rightarrow> int" where
  "group b c dflt = (case map_of b c of None \<Rightarrow> dflt | Some v \<Rightarrow> v)"

definition strptime :: "string \<Rightarrow> string \<Rightarrow> pyerr + datetime" where
  "strptime data_string fmt =
     (case matches (compile fmt) data_string of
        [] \<Rightarrow> Inl (ValueError ''time data does not match format'')
      | (b, rest) # other \<Rightarrow>
          if rest \<noteq> [] then Inl (ValueError (''unconverted data remains: '' @ rest))
          else datetime_new (group b CHR ''Y'' 1900) (group b CHR ''m'' 1) (group b CHR ''d'' 1)
                 (group b CHR ''H'' 0) (group b CHR ''M'' 0) (group b CHR ''S'' 0))"

subsection \<open>\<open>to_milliseconds\<close>\<close>

text \<open>
  \<open>datetime.timestamp()\<close> of an aware value whose offset from UTC is \<open>utcoffset\<close>
  microseconds: the seconds since 1970-01-01T00:00:00Z.
\<close>

definition epoch_us :: "datetime \<Rightarrow> int \<Rightarrow> int" where
  "epoch_us d utcoffset =
     ((ymd2ord (year d) (month d) (day d) - 719163) * 86400
         + hour d * 3600 + minute d * 60 + second d) * 1000000
       + microsecond d - utcoffset"

definition timestamp :: "datetime \<Rightarrow> int \<Rightarrow> real" where
  "timestamp d utcoffset = real_of_int (epoch_us d utcoffset) / 1000000"

text \<open>
  The argument of \<open>to_milliseconds\<close> by its Python type; \<open>TOther\<close> carries the name of
  any other type (\<open>bool\<close> is an \<open>int\<close> in Python and arrives as \<open>TInt\<close>).
\<close>

datatype timearg = TInt int | TFloat pyfloat | TStr string | TDatetime datetime | TOther string

text \<open>The \<open>for fmt in (...)\<close> loop with its \<open>try\<close>: the first format that parses wins.\<close>

fun try_formats :: "string \<Rightarrow> string list \<Rightarrow> datetime option" where
  "try_formats s [] = None"
| "try_formats s (fmt # fmts) =
     (case strptime s fmt of
        Inr d \<Rightarrow> Some (d\<lparr>tzinfo := Some 0\<rparr>)
      | Inl e \<Rightarrow> try_formats s fmts)"

definition datetime_ms :: "datetime \<Rightarrow> pyerr + int" where
  "datetime_ms d =
     (let d' = (if tzinfo d = None then d\<lparr>tzinfo := Some 0\<rparr> else d)
      in int_of_float (Fin (timestamp d' (case tzinfo d' of None \<Rightarrow> 0 | Some off \<Rightarrow> off) * 1000)))"

definition to_milliseconds :: "timearg \<Rightarrow> pyerr + int" where
  "to_milliseconds dt =
     (case dt of
        TInt i \<Rightarrow> Inr i
      | TFloat f \<Rightarrow> int_of_float f
      | TStr s \<Rightarrow>
          (case try_formats s [''%Y-%m-%d %H:%M:%S'', ''%Y-%m-%d''] of
             None \<Rightarrow>
               Inl (ValueError (''Unsupported datetime format: '' @ repr_str s @ ''. Use ''
                      @ [squote] @ ''YYYY-MM-DD'' @ [squote] @ '' or ''
                      @ [squote] @ ''YYYY-MM-DD HH:MM:SS'' @ [squote]))
           | Some d \<Rightarrow> datetime_ms d)
      | TDatetime d \<Rightarrow> datetime_ms d
      | TOther name \<Rightarrow> Inl (TypeError (''Cannot convert '' @ name @ '' to timestamp'')))"


section \<open>Canonical schema model (market\_data/domain/models.py)\<close>

datatype data_type =
    OHLCV
  | INDEX_PRICE
  | MARK_PRICE
  | FUNDING_RATE
  | OPEN_INTEREST
  | LONG_SHORT_RATIO
  | TOP_LS_ACCOUNTS
  | TOP_LS_POSITIONS
  | TAKER_BUY_SELL

fun dt_value :: "data_type \<Rightarrow> string" where
  "dt_value OHLCV = ''ohlcv''"
| "dt_value INDEX_PRICE = ''index_price''"
| "dt_value MARK_PRICE = ''mark_price''"
| "dt_value FUNDING_RATE = ''funding_rate''"
| "dt_value OPEN_INTEREST = ''open_interest''"
| "dt_value LONG_SHORT_RATIO = ''long_short_ratio''"
| "dt_value TOP_LS_ACCOUNTS = ''top_ls_accounts''"
| "dt_value TOP_LS_POSITIONS = ''top_ls_positions''"
| "dt_value TAKER_BUY_SELL = ''taker_buy_sell''"

text \<open>\<open>_SCHEMAS\<close>: the property \<open>DataType.columns\<close>.\<close>

fun columns :: "data_type \<Rightarrow> string list" where
  "columns OHLCV =
     [''timestamp'', ''open'', ''high'', ''low'', ''close'', ''volume'',
      ''close_time'', ''quote_volume'', ''trades'',
      ''taker_buy_volume'', ''taker_buy_quote_volume'']"
| "columns INDEX_PRICE = [''timestamp'', ''open'', ''high'', ''low'', ''close'']"
| "columns MARK_PRICE = [''timestamp'', ''open'', ''high'', ''low'', ''close'']"
| "columns FUNDING_RATE = [''timestamp'', ''symbol'', ''funding_rate'', ''mark_price'']"
| "columns OPEN_INTEREST =
     [''timestamp'', ''symbol'', ''open_interest'', ''open_interest_value'']"
| "columns LONG_SHORT_RATIO =
     [''timestamp'', ''symbol'', ''long_short_ratio'', ''long_account'', ''short_account'']"
| "columns TOP_LS_ACCOUNTS =
     [''timestamp'', ''symbol'', ''long_short_ratio'', ''long_account'', ''short_account'']"
| "columns TOP_LS_POSITIONS =
     [''timestamp'', ''symbol'', ''long_short_ratio'', ''long_account'', ''short_account'']"
| "columns TAKER_BUY_SELL = [''timestamp'', ''buy_sell_ratio'', ''buy_vol'', ''sell_vol'']"

definition uses_interval :: "data_type \<Rightarrow> bool" where
  "uses_interval dt = (dt \<in> set [OHLCV, INDEX_PRICE, MARK_PRICE])"

definition uses_period :: "data_type \<Rightarrow> bool" where
  "uses_period dt =
     (dt \<in> set [OPEN_INTEREST, LONG_SHORT_RATIO, TOP_LS_ACCOUNTS, TOP_LS_POSITIONS,
                 TAKER_BUY_SELL])"

section \<open>Raw exchange values and Python conversions\<close>

text \<open>
  A scalar of a parsed JSON response or a cell of a data frame: an int, a float, a string,
  \<open>None\<close>, pandas' \<open>NaT\<close>, or a UTC instant (a pandas timestamp, in nanoseconds since the
  epoch). A kline is a list of scalars, a record a dict from field names to scalars, kept
  in order.
\<close>

datatype val = VInt int | VFloat pyfloat | VStr string | VNone | VNaT | VTime int

type_synonym row = "val list"
type_synonym dict = "(string \<times> val) list"

text \<open>An element of a page: a JSON array (a kline) or a JSON object (a record).\<close>

datatype item = Arr row | Obj dict

definition nan :: val where
  "nan = VFloat NaN"

definition strip :: "string \<Rightarrow> string" where
  "strip s = rev (dropWhile is_space (rev (dropWhile is_space s)))"

definition split_sign :: "string \<Rightarrow> bool \<times> string" where
  "split_sign s =
     (case s of
        [] \<Rightarrow> (False, [])
      | c # cs \<Rightarrow> if c = CHR ''-'' then (True, cs) else if c = CHR ''+'' then (False, cs)
                 else (False, s))"

definition all_digits :: "string \<Rightarrow> bool" where
  "all_digits s = (s \<noteq> [] \<and> list_all is_digit s)"

text \<open>
  \<open>int(s)\<close> and \<open>float(s)\<close> on a string: decimal literals with an optional sign and
  surrounding white space, for floats also a fraction, an exponent and the names
  \<open>nan\<close>, \<open>inf\<close>, \<open>infinity\<close>. (Digit-group underscores are not modelled.)
\<close>

definition int_of_string :: "string \<Rightarrow> int option" where
  "int_of_string s =
     (case split_sign (strip s) of
        (neg, ds) \<Rightarrow>
          if all_digits ds then Some (if neg then - digits_val 0 ds else digits_val 0 ds)
          else None)"

definition exponent_of :: "string \<Rightarrow> int option" where
  "exponent_of s =
     (case s of
        [] \<Rightarrow> Some 0
      | c # cs \<Rightarrow>
          (case split_sign cs of
             (neg, ds) \<Rightarrow>
               if all_digits ds then Some (if neg then - digits_val 0 ds else digits_val 0 ds)
               else None))"

definition scale10 :: "real \<Rightarrow> int \<Rightarrow> real" where
  "scale10 r e = (if 0 \<le> e then r * 10 ^ nat e else r / 10 ^ nat (- e))"

definition decimal_of :: "string \<Rightarrow> real option" where
  "decimal_of s =
     (let mant = takeWhile (\<lambda>c. c \<noteq> CHR ''e'') s;
          ex = dropWhile (\<lambda>c. c \<noteq> CHR ''e'') s;
          ip = takeWhile (\<lambda>c. c \<noteq> CHR ''.'') mant;
          fp = drop 1 (dropWhile (\<lambda>c. c \<noteq> CHR ''.'') mant)
      in if (ip \<noteq> [] \<or> fp \<noteq> []) \<and> list_all is_digit ip \<and> list_all is_digit fp
         then (case exponent_of ex of
                 None \<Rightarrow> None
               | Some e \<Rightarrow>
                   Some (scale10 (real_of_int (digits_val 0 (ip @ fp)) / 10 ^ length fp) e))
         else None)"

definition float_of_string :: "string \<Rightarrow> pyfloat option" where
  "float_of_string s =
     (case split_sign (lower (strip s)) of
        (neg, u) \<Rightarrow>
          if u = ''nan'' then Some NaN
          else if u = ''inf'' \<or> u = ''infinity'' then Some (if neg then NInf else PInf)
          else (case decimal_of u of
                  None \<Rightarrow> None
                | Some r \<Rightarrow> Some (Fin (if neg then - r else r))))"

definition py_int :: "val \<Rightarrow> pyerr + int" where
  "py_int v =
     (case v of
        VInt i \<Rightarrow> Inr i
      | VFloat f \<Rightarrow> int_of_float f
      | VStr s \<Rightarrow>
          (case int_of_string s of
             None \<Rightarrow> Inl (ValueError (''invalid literal for int() with base 10: '' @ repr_str s))
           | Some i \<Rightarrow> Inr i)
      | VNone \<Rightarrow> Inl (TypeError ''int() argument must be a string or a real number'')
      | VNaT \<Rightarrow> Inl (ValueError ''cannot convert NaT to integer'')
      | VTime t \<Rightarrow> Inl (TypeError ''int() argument must be a string or a real number''))"

definition py_float :: "val \<Rightarrow> pyerr + pyfloat" where
  "py_float v =
     (case v of
        VInt i \<Rightarrow> Inr (Fin (real_of_int i))
      | VFloat f \<Rightarrow> Inr f
      | VStr s \<Rightarrow>
          (case float_of_string s of
             None \<Rightarrow> Inl (ValueError (''could not convert string to float: '' @ repr_str s))
           | Some f \<Rightarrow> Inr f)
      | VNone \<Rightarrow> Inl (TypeError ''float() argument must be a string or a real number'')
      | VNaT \<Rightarrow> Inl (TypeError ''float() argument must be a string or a real number'')
      | VTime t \<Rightarrow> Inl (TypeError ''float() argument must be a string or a real number''))"

text \<open>
  Float division: Python raises on a zero divisor; otherwise the IEEE result, with the
  infinities and NaN propagated. \<open>x != 0\<close> is true of NaN and of the infinities.
\<close>

definition float_sign :: "pyfloat \<Rightarrow> real" where
  "float_sign f = (case f of Fin r \<Rightarrow> (if r < 0 then - 1 else 1) | PInf \<Rightarrow> 1 | NInf \<Rightarrow> - 1 | NaN \<Rightarrow> 1)"

definition is_inf :: "pyfloat \<Rightarrow> bool" where
  "is_inf f = (f = PInf \<or> f = NInf)"

definition truediv :: "pyfloat \<Rightarrow> pyfloat \<Rightarrow> pyerr + pyfloat" where
  "truediv a b =
     (if b = Fin 0 then Inl (ZeroDivisionError ''float division by zero'')
      else if a = NaN \<or> b = NaN then Inr NaN
      else if is_inf a \<and> is_inf b then Inr NaN
      else if is_inf a then Inr (if float_sign a * float_sign b < 0 then NInf else PInf)
      else if is_inf b then Inr (Fin 0)
      else (case (a, b) of (Fin x, Fin y) \<Rightarrow> Inr (Fin (x / y)) | other \<Rightarrow> Inr NaN))"

definition float_ne_zero :: "pyfloat \<Rightarrow> bool" where
  "float_ne_zero f = (f \<noteq> Fin 0)"

text \<open>Indexing a list (negative indices count from the end), a dict and a page element.\<close>

definition getitem :: "'a list \<Rightarrow> int \<Rightarrow> pyerr + 'a" where
  "getitem xs i =
     (if - int (length xs) \<le> i \<and> i < 0 then Inr (xs ! nat (int (length xs) + i))
      else if 0 \<le> i \<and> i < int (length xs) then Inr (xs ! nat i)
      else Inl (IndexError ''list index out of range''))"

definition getkey :: "dict \<Rightarrow> string \<Rightarrow> pyerr + val" where
  "getkey d k = (case map_of d k of None \<Rightarrow> Inl (KeyError k) | Some v \<Rightarrow> Inr v)"

definition idx :: "item \<Rightarrow> int \<Rightarrow> pyerr + val" where
  "idx it i = (case it of Arr r \<Rightarrow> getitem r i | Obj d \<Rightarrow> Inl (KeyError (str_int i)))"

definition field :: "item \<Rightarrow> string \<Rightarrow> pyerr + val" where
  "field it k =
     (case it of
        Obj d \<Rightarrow> getkey d k
      | Arr r \<Rightarrow> Inl (TypeError ''list indices must be integers or slices, not str''))"

definition int_at :: "item \<Rightarrow> int \<Rightarrow> pyerr + int" where
  "int_at it i = bindE (idx it i) py_int"

definition float_at :: "item \<Rightarrow> int \<Rightarrow> pyerr + pyfloat" where
  "float_at it i = bindE (idx it i) py_float"

definition int_field :: "item \<Rightarrow> string \<Rightarrow> pyerr + int" where
  "int_field it k = bindE (field it k) py_int"

definition float_field :: "item \<Rightarrow> string \<Rightarrow> pyerr + pyfloat" where
  "float_field it k = bindE (field it k) py_float"

text \<open>\<open>d[k] = v\<close> and the merge \<open>{**d, k: v, ...}\<close> on a dict kept in insertion order.\<close>

definition dict_merge :: "dict \<Rightarrow> dict \<Rightarrow> dict" where
  "dict_merge d extra = fold (\<lambda>(k, v) acc. AList.update k v acc) extra d"

text \<open>
  \<open>list.sort(key=...)\<close>: the keys are computed first (a key that raises ends the sort),
  then the list is sorted stably by them.
\<close>

definition sort_by :: "('a \<Rightarrow> pyerr + int) \<Rightarrow> 'a list \<Rightarrow> pyerr + 'a list" where
  "sort_by key xs = bindE (mapE key xs) (\<lambda>ks. Inr (map snd (sort_key fst (zip ks xs))))"

section \<open>The exchange\<close>

text \<open>
  One call of \<open>self._http.get(url, params)\<close>. The exchange is a mock: what it answers may
  depend on how many calls the current \<open>fetch\<close> has made before (from 0) and on the
  request. \<open>mock_pages\<close> serves a list of responses in order, then a default.
\<close>

record request =
  req_url :: string
  req_params :: dict

type_synonym 'p exchange = "nat \<Rightarrow> request \<Rightarrow> 'p"

definition mock_pages :: "'p list \<Rightarrow> 'p \<Rightarrow> 'p exchange" where
  "mock_pages ps d n req = (if n < length ps then ps ! n else d)"

section \<open>Data frames\<close>

text \<open>
  A pandas \<open>DataFrame\<close> as its columns in order, each a label and its cells; the row index
  is not modelled. The operations below are the ones the adapters use. Labels are kept
  distinct: an operation that would leave two columns with one label is outside the model
  and reports \<open>Unmodelled\<close>. \<open>sort_values\<close> is modelled as a stable sort; pandas does not
  promise the order of rows with equal keys.
\<close>

type_synonym frame = "(string \<times> val list) list"



definition empty_frame :: frame where
  "empty_frame = []"

definition unmodelled :: pyerr where
  "unmodelled = Unmodelled ''duplicate column label''"




text \<open>\<open>pd.DataFrame(records)\<close> from a list of dicts: the union of the keys, NaN where a key is missing.\<close>

definition first_seen :: "'a list \<Rightarrow> 'a list" where
  "first_seen xs = rev (remdups (rev xs))"

definition frame_of_dicts :: "dict list \<Rightarrow> frame" where
  "frame_of_dicts recs =
     map (\<lambda>k. (k, map (\<lambda>r. case map_of r k of None \<Rightarrow> nan | Some v \<Rightarrow> v) recs))
       (first_seen (concat (map (map fst) recs)))"


definition get_column :: "frame \<Rightarrow> string \<Rightarrow> pyerr + val list" where
  "get_column df c = (case map_of df c of None \<Rightarrow> Inl (KeyError c) | Some vs \<Rightarrow> Inr vs)"

definition set_column :: "frame \<Rightarrow> string \<Rightarrow> val list \<Rightarrow> frame" where
  "set_column df c vs = AList.update c vs df"


definition select_columns :: "frame \<Rightarrow> string list \<Rightarrow> pyerr + frame" where
  "select_columns df cs =
     (if \<not> distinct cs then Inl unmodelled
      else mapE (\<lambda>c. case map_of df c of None \<Rightarrow> Inl (KeyError c) | Some vs \<Rightarrow> Inr (c, vs)) cs)"





definition to_datetime_unit :: "int \<Rightarrow> val list \<Rightarrow> pyerr + val list" where
  "to_datetime_unit ns_per_unit vs =
     mapE (\<lambda>v. case v of
                  VInt i \<Rightarrow> Inr (VTime (i * ns_per_unit))
                | VFloat (Fin r) \<Rightarrow> Inr (VTime (trunc (r * real_of_int ns_per_unit)))
                | VFloat other \<Rightarrow> Inr VNaT
                | VNone \<Rightarrow> Inr VNaT
                | VNaT \<Rightarrow> Inr VNaT
                | VTime t \<Rightarrow> Inl (Unmodelled ''an instant where a number is expected'')
                | VStr s \<Rightarrow> Inl (ValueError ''to_datetime: non-numeric value with a unit'')) vs"

definition ns_per_ms :: int where
  "ns_per_ms = 1000000"



text \<open>
  The sort key of a cell: integers and instants only (the columns the adapters sort hold
  nothing else once converted).
\<close>

definition order_key :: "val \<Rightarrow> pyerr + int" where
  "order_key v =
     (case v of VInt i \<Rightarrow> Inr i | VTime t \<Rightarrow> Inr t
      | other \<Rightarrow> Inl (TypeError ''sort_values: unordered cell''))"

definition take_rows :: "nat list \<Rightarrow> frame \<Rightarrow> frame" where
  "take_rows perm df = map (\<lambda>(c, vs). (c, map (\<lambda>i. vs ! i) perm)) df"

definition sort_values :: "frame \<Rightarrow> string \<Rightarrow> pyerr + frame" where
  "sort_values df c =
     bindE (get_column df c) (\<lambda>vs.
     bindE (mapE order_key vs) (\<lambda>ks.
       Inr (take_rows (map snd (sort_key fst (zip ks [0 ..< length ks]))) df)))"


text \<open>The instants of the \<open>timestamp\<close> column of a frame, when it has one that holds only instants.\<close>

fun the_time :: "val \<Rightarrow> int option" where
  "the_time (VTime t) = Some t"
| "the_time v = None"

definition those_times :: "val list \<Rightarrow> int list option" where
  "those_times vs = (if list_all (\<lambda>v. the_time v \<noteq> None) vs then Some (List.map_filter the_time vs) else None)"

definition timestamps :: "frame \<Rightarrow> int list option" where
  "timestamps df = (case map_of df ''timestamp'' of None \<Rightarrow> None | Some vs \<Rightarrow> those_times vs)"

section \<open>Bybit adapter (market\_data/infra/bybit.py)\<close>

definition bybit_BASE_URL :: string where
  "bybit_BASE_URL = ''https://api.bybit.com''"

definition bybit_INTERVAL_MAP :: "(string \<times> string) list" where
  "bybit_INTERVAL_MAP =
     [(''1m'', ''1''), (''3m'', ''3''), (''5m'', ''5''), (''15m'', ''15''), (''30m'', ''30''),
      (''1h'', ''60''), (''2h'', ''120''), (''4h'', ''240''), (''6h'', ''360''), (''12h'', ''720''),
      (''1d'', ''D''), (''1w'', ''W''), (''1M'', ''M'')]"

definition bybit_PERIOD_MAP :: "(string \<times> string) list" where
  "bybit_PERIOD_MAP =
     [(''5m'', ''5min''), (''15m'', ''15min''), (''30m'', ''30min''),
      (''1h'', ''1h''), (''4h'', ''4h''), (''1d'', ''1d'')]"

text \<open>\<open>m.get(k, k)\<close> for an optional string \<open>k\<close>, as a request parameter.\<close>

definition get_or_self :: "(string \<times> string) list \<Rightarrow> string option \<Rightarrow> val" where
  "get_or_self m k =
     (case k of
        None \<Rightarrow> VNone
      | Some s \<Rightarrow> (case map_of m s of None \<Rightarrow> VStr s | Some t \<Rightarrow> VStr t))"

text \<open>
  The Bybit envelope: \<open>retCode\<close>, and in \<open>result\<close> the page \<open>list\<close> and \<open>nextPageCursor\<close>
  (empty when absent).
\<close>

record bybit_response =
  retCode :: int
  result_list :: "item list"
  nextPageCursor :: string

definition bybit_api_get :: "bybit_response exchange \<Rightarrow> nat \<Rightarrow> request \<Rightarrow> pyerr + bybit_response" where
  "bybit_api_get ex n req =
     (let resp = ex n req in
      if retCode resp \<noteq> 0 then Inl (RuntimeError ''Bybit API error'') else Inr resp)"

text \<open>
  The pagination loops return the rows gathered (or the exception) and the requests made,
  in order; the number of the next call is the length of that log. \<open>None\<close> is a loop that
  never ends.
\<close>

type_synonym 'a fetched = "((pyerr + 'a) \<times> request list) option"

partial_function (option) bybit_klines_loop ::
  "bybit_response exchange \<Rightarrow> string \<Rightarrow> dict \<Rightarrow> int \<Rightarrow> int \<Rightarrow> item list \<Rightarrow> int \<Rightarrow> request list
     \<Rightarrow> item list fetched" where
  "bybit_klines_loop ex endpoint params_base start_ms limit all_data current_end reqs =
     (if current_end > start_ms then
        (let req = \<lparr>req_url = bybit_BASE_URL @ endpoint,
                    req_params = dict_merge params_base
                      [(''start'', VInt start_ms), (''end'', VInt current_end),
                       (''limit'', VInt limit)]\<rparr>
         in case bybit_api_get ex (length reqs) req of
              Inl e \<Rightarrow> Some (Inl e, reqs @ [req])
            | Inr result \<Rightarrow>
                if result_list result = [] then Some (Inr all_data, reqs @ [req])
                else if int (length (result_list result)) < limit
                  then Some (Inr (all_data @ result_list result), reqs @ [req])
                else (case int_at (last (result_list result)) 0 of
                        Inl e \<Rightarrow> Some (Inl e, reqs @ [req])
                      | Inr oldest_ts \<Rightarrow>
                          bybit_klines_loop ex endpoint params_base start_ms limit
                            (all_data @ result_list result) (oldest_ts - 1) (reqs @ [req])))
      else Some (Inr all_data, reqs))"

declare bybit_klines_loop.simps [code]

definition bybit_paginate_klines ::
  "bybit_response exchange \<Rightarrow> string \<Rightarrow> dict \<Rightarrow> int \<Rightarrow> int \<Rightarrow> int \<Rightarrow> item list fetched" where
  "bybit_paginate_klines ex endpoint params_base start_ms end_ms limit =
     map_option (\<lambda>(r, reqs). (bindE r (sort_by (\<lambda>x. int_at x 0)), reqs))
       (bybit_klines_loop ex endpoint params_base start_ms limit [] end_ms [])"

partial_function (option) bybit_funding_loop ::
  "bybit_response exchange \<Rightarrow> string \<Rightarrow> int \<Rightarrow> int \<Rightarrow> item list \<Rightarrow> int \<Rightarrow> request list
     \<Rightarrow> item list fetched" where
  "bybit_funding_loop ex symbol start_ms limit all_data current_end reqs =
     (if current_end > start_ms then
        (let req = \<lparr>req_url = bybit_BASE_URL @ ''/v5/market/funding/history'',
                    req_params =
                      [(''category'', VStr ''linear''), (''symbol'', VStr symbol),
                       (''startTime'', VInt start_ms), (''endTime'', VInt current_end),
                       (''limit'', VInt limit)]\<rparr>
         in case bybit_api_get ex (length reqs) req of
              Inl e \<Rightarrow> Some (Inl e, reqs @ [req])
            | Inr result \<Rightarrow>
                if result_list result = [] then Some (Inr all_data, reqs @ [req])
                else if int (length (result_list result)) < limit
                  then Some (Inr (all_data @ result_list result), reqs @ [req])
                else (case int_field (last (result_list result)) ''fundingRateTimestamp'' of
                        Inl e \<Rightarrow> Some (Inl e, reqs @ [req])
                      | Inr oldest_ts \<Rightarrow>
                          bybit_funding_loop ex symbol start_ms limit
                            (all_data @ result_list result) (oldest_ts - 1) (reqs @ [req])))
      else Some (Inr all_data, reqs))"

declare bybit_funding_loop.simps [code]

definition bybit_paginate_funding ::
  "bybit_response exchange \<Rightarrow> string \<Rightarrow> int \<Rightarrow> int \<Rightarrow> int \<Rightarrow> item list fetched" where
  "bybit_paginate_funding ex symbol start_ms end_ms limit =
     map_option (\<lambda>(r, reqs). (bindE r (sort_by (\<lambda>x. int_field x ''fundingRateTimestamp'')), reqs))
       (bybit_funding_loop ex symbol start_ms limit [] end_ms [])"

partial_function (option) bybit_open_interest_loop ::
  "bybit_response exchange \<Rightarrow> string \<Rightarrow> int \<Rightarrow> int \<Rightarrow> val \<Rightarrow> int \<Rightarrow> item list \<Rightarrow> string
     \<Rightarrow> request list \<Rightarrow> item list fetched" where
  "bybit_open_interest_loop ex symbol start_ms end_ms interval_time limit all_data cursor reqs =
     (let req = \<lparr>req_url = bybit_BASE_URL @ ''/v5/market/open-interest'',
                 req_params =
                   [(''category'', VStr ''linear''), (''symbol'', VStr symbol),
                    (''intervalTime'', interval_time),
                    (''startTime'', VInt start_ms), (''endTime'', VInt end_ms),
                    (''limit'', VInt limit)]
                   @ (if cursor \<noteq> [] then [(''cursor'', VStr cursor)] else [])\<rparr>
      in case bybit_api_get ex (length reqs) req of
           Inl e \<Rightarrow> Some (Inl e, reqs @ [req])
         | Inr result \<Rightarrow>
             if result_list result = [] then Some (Inr all_data, reqs @ [req])
             else if nextPageCursor result = [] \<or> int (length (result_list result)) < limit
               then Some (Inr (all_data @ result_list result), reqs @ [req])
             else bybit_open_interest_loop ex symbol start_ms end_ms interval_time limit
                    (all_data @ result_list result) (nextPageCursor result) (reqs @ [req]))"

declare bybit_open_interest_loop.simps [code]

definition bybit_paginate_open_interest ::
  "bybit_response exchange \<Rightarrow> string \<Rightarrow> int \<Rightarrow> int \<Rightarrow> val \<Rightarrow> int \<Rightarrow> item list fetched" where
  "bybit_paginate_open_interest ex symbol start_ms end_ms interval_time limit =
     bybit_open_interest_loop ex symbol start_ms end_ms interval_time limit [] [] []"

text \<open>The converters. A row dict is built field by field, in the order the source writes them.\<close>

definition bybit_ohlcv_row :: "item \<Rightarrow> pyerr + dict" where
  "bybit_ohlcv_row it =
     bindE (int_at it 0) (\<lambda>ts.
     bindE (float_at it 1) (\<lambda>opn.
     bindE (float_at it 2) (\<lambda>hi.
     bindE (float_at it 3) (\<lambda>lo.
     bindE (float_at it 4) (\<lambda>cl.
     bindE (float_at it 5) (\<lambda>vol.
     bindE (float_at it 6) (\<lambda>turnover.
       Inr [(''timestamp'', VInt ts), (''open'', VFloat opn), (''high'', VFloat hi),
            (''low'', VFloat lo), (''close'', VFloat cl), (''volume'', VFloat vol),
            (''close_time'', VNone), (''quote_volume'', VFloat turnover),
            (''trades'', VInt 0), (''taker_buy_volume'', nan),
            (''taker_buy_quote_volume'', nan)])))))))"

text \<open>
  The common tail of the Bybit converters: \<open>pd.DataFrame(rows)\<close>, the timestamp column
  through \<open>pd.to_datetime(unit="ms")\<close>, an optional \<open>sort_values("timestamp")\<close>, and the
  selection of the canonical columns.
\<close>

definition rows_to_frame :: "dict list \<Rightarrow> bool \<Rightarrow> string list \<Rightarrow> pyerr + frame" where
  "rows_to_frame rows sorted_too cs =
     (let df = frame_of_dicts rows in
      bindE (get_column df ''timestamp'') (\<lambda>col.
      bindE (to_datetime_unit ns_per_ms col) (\<lambda>ts.
      bindE (if sorted_too then sort_values (set_column df ''timestamp'' ts) ''timestamp''
             else Inr (set_column df ''timestamp'' ts)) (\<lambda>df'.
        select_columns df' cs))))"

definition bybit_klines_to_ohlcv_df :: "item list \<Rightarrow> pyerr + frame" where
  "bybit_klines_to_ohlcv_df raw =
     (if raw = [] then Inr empty_frame
      else bindE (mapE bybit_ohlcv_row raw) (\<lambda>rows. rows_to_frame rows False (columns OHLCV)))"

definition bybit_price_row :: "item \<Rightarrow> pyerr + dict" where
  "bybit_price_row it =
     bindE (int_at it 0) (\<lambda>ts.
     bindE (float_at it 1) (\<lambda>opn.
     bindE (float_at it 2) (\<lambda>hi.
     bindE (float_at it 3) (\<lambda>lo.
     bindE (float_at it 4) (\<lambda>cl.
       Inr [(''timestamp'', VInt ts), (''open'', VFloat opn), (''high'', VFloat hi),
            (''low'', VFloat lo), (''close'', VFloat cl)])))))"

definition bybit_klines_to_price_df :: "item list \<Rightarrow> pyerr + frame" where
  "bybit_klines_to_price_df raw =
     (if raw = [] then Inr empty_frame
      else bindE (mapE bybit_price_row raw) (\<lambda>rows.
             rows_to_frame rows False (columns INDEX_PRICE)))"

text \<open>The fetch implementations: the two times are converted before the first request.\<close>

definition with_times ::
  "timearg \<Rightarrow> timearg \<Rightarrow> (int \<Rightarrow> int \<Rightarrow> 'a fetched) \<Rightarrow> 'a fetched" where
  "with_times start_time end_time f =
     (case to_milliseconds start_time of
        Inl e \<Rightarrow> Some (Inl e, [])
      | Inr start_ms \<Rightarrow>
          (case to_milliseconds end_time of
             Inl e \<Rightarrow> Some (Inl e, [])
           | Inr end_ms \<Rightarrow> f start_ms end_ms))"

definition then_convert :: "item list fetched \<Rightarrow> (item list \<Rightarrow> pyerr + frame) \<Rightarrow> frame fetched" where
  "then_convert paged conv = map_option (\<lambda>(r, reqs). (bindE r conv, reqs)) paged"

definition bybit_fetch_ohlcv ::
  "bybit_response exchange \<Rightarrow> string \<Rightarrow> timearg \<Rightarrow> timearg \<Rightarrow> string option \<Rightarrow> frame fetched" where
  "bybit_fetch_ohlcv ex symbol start_time end_time interval =
     with_times start_time end_time (\<lambda>start_ms end_ms.
       then_convert
         (bybit_paginate_klines ex ''/v5/market/kline''
            [(''category'', VStr ''linear''), (''symbol'', VStr symbol),
             (''interval'', get_or_self bybit_INTERVAL_MAP interval)] start_ms end_ms 200)
         bybit_klines_to_ohlcv_df)"

definition bybit_fetch_index_price ::
  "bybit_response exchange \<Rightarrow> string \<Rightarrow> timearg \<Rightarrow> timearg \<Rightarrow> string option \<Rightarrow> frame fetched" where
  "bybit_fetch_index_price ex symbol start_time end_time interval =
     with_times start_time end_time (\<lambda>start_ms end_ms.
       then_convert
         (bybit_paginate_klines ex ''/v5/market/index-price-kline''
            [(''category'', VStr ''linear''), (''symbol'', VStr symbol),
             (''interval'', get_or_self bybit_INTERVAL_MAP interval)] start_ms end_ms 200)
         bybit_klines_to_price_df)"

definition bybit_fetch_mark_price ::
  "bybit_response exchange \<Rightarrow> string \<Rightarrow> timearg \<Rightarrow> timearg \<Rightarrow> string option \<Rightarrow> frame fetched" where
  "bybit_fetch_mark_price ex symbol start_time end_time interval =
     with_times start_time end_time (\<lambda>start_ms end_ms.
       then_convert
         (bybit_paginate_klines ex ''/v5/market/mark-price-kline''
            [(''category'', VStr ''linear''), (''symbol'', VStr symbol),
             (''interval'', get_or_self bybit_INTERVAL_MAP interval)] start_ms end_ms 200)
         bybit_klines_to_price_df)"

definition bybit_funding_row :: "item \<Rightarrow> pyerr + dict" where
  "bybit_funding_row it =
     bindE (int_field it ''fundingRateTimestamp'') (\<lambda>ts.
     bindE (field it ''symbol'') (\<lambda>sym.
     bindE (float_field it ''fundingRate'') (\<lambda>rate.
       Inr [(''timestamp'', VInt ts), (''symbol'', sym), (''funding_rate'', VFloat rate),
            (''mark_price'', nan)])))"

definition bybit_funding_to_df :: "item list \<Rightarrow> pyerr + frame" where
  "bybit_funding_to_df raw =
     (if raw = [] then Inr empty_frame
      else bindE (mapE bybit_funding_row raw) (\<lambda>rows.
             rows_to_frame rows False (columns FUNDING_RATE)))"

definition bybit_fetch_funding_rate ::
  "bybit_response exchange \<Rightarrow> string \<Rightarrow> timearg \<Rightarrow> timearg \<Rightarrow> frame fetched" where
  "bybit_fetch_funding_rate ex symbol start_time end_time =
     with_times start_time end_time (\<lambda>start_ms end_ms.
       then_convert (bybit_paginate_funding ex symbol start_ms end_ms 200) bybit_funding_to_df)"

definition bybit_oi_row :: "string \<Rightarrow> item \<Rightarrow> pyerr + dict" where
  "bybit_oi_row symbol it =
     bindE (int_field it ''timestamp'') (\<lambda>ts.
     bindE (float_field it ''openInterest'') (\<lambda>oi.
       Inr [(''timestamp'', VInt ts), (''symbol'', VStr symbol), (''open_interest'', VFloat oi),
            (''open_interest_value'', nan)]))"

definition bybit_oi_to_df :: "string \<Rightarrow> item list \<Rightarrow> pyerr + frame" where
  "bybit_oi_to_df symbol raw =
     (if raw = [] then Inr empty_frame
      else bindE (mapE (bybit_oi_row symbol) raw) (\<lambda>rows.
             rows_to_frame rows True (columns OPEN_INTEREST)))"

definition bybit_fetch_open_interest ::
  "bybit_response exchange \<Rightarrow> string \<Rightarrow> timearg \<Rightarrow> timearg \<Rightarrow> string option \<Rightarrow> frame fetched" where
  "bybit_fetch_open_interest ex symbol start_time end_time period =
     with_times start_time end_time (\<lambda>start_ms end_ms.
       then_convert
         (bybit_paginate_open_interest ex symbol start_ms end_ms
            (get_or_self bybit_PERIOD_MAP period) 200)
         (bybit_oi_to_df symbol))"

text \<open>
  The conditional expression \<open>buy_ratio / sell_ratio if sell_ratio != 0 else float("nan")\<close>:
  the division is evaluated only when the condition holds.
\<close>

definition bybit_ls_row :: "item \<Rightarrow> pyerr + dict" where
  "bybit_ls_row it =
     bindE (float_field it ''buyRatio'') (\<lambda>buy_ratio.
     bindE (float_field it ''sellRatio'') (\<lambda>sell_ratio.
     bindE (int_field it ''timestamp'') (\<lambda>ts.
     bindE (field it ''symbol'') (\<lambda>sym.
     bindE (if float_ne_zero sell_ratio then truediv buy_ratio sell_ratio else Inr NaN) (\<lambda>ratio.
       Inr [(''timestamp'', VInt ts), (''symbol'', sym), (''long_short_ratio'', VFloat ratio),
            (''long_account'', VFloat buy_ratio), (''short_account'', VFloat sell_ratio)])))))"

definition bybit_ls_request :: "string \<Rightarrow> string option \<Rightarrow> request" where
  "bybit_ls_request symbol period =
     \<lparr>req_url = bybit_BASE_URL @ ''/v5/market/account-ratio'',
      req_params =
        [(''category'', VStr ''linear''), (''symbol'', VStr symbol),
         (''period'', get_or_self bybit_PERIOD_MAP period), (''limit'', VInt 500)]\<rparr>"

definition bybit_fetch_long_short_ratio ::
  "bybit_response exchange \<Rightarrow> string \<Rightarrow> timearg \<Rightarrow> timearg \<Rightarrow> string option
     \<Rightarrow> (pyerr + frame) \<times> request list" where
  "bybit_fetch_long_short_ratio ex symbol start_time end_time period =
     (bindE (bybit_api_get ex 0 (bybit_ls_request symbol period)) (\<lambda>result.
        if result_list result = [] then Inr empty_frame
        else bindE (mapE bybit_ls_row (result_list result)) (\<lambda>rows.
               rows_to_frame rows True (columns LONG_SHORT_RATIO))),
      [bybit_ls_request symbol period])"

definition bybit_fetch ::
  "bybit_response exchange \<Rightarrow> data_type \<Rightarrow> string \<Rightarrow> timearg \<Rightarrow> timearg \<Rightarrow> string option
     \<Rightarrow> string option \<Rightarrow> frame fetched" where
  "bybit_fetch ex data_type symbol start_time end_time interval period =
     (case data_type of
        OHLCV \<Rightarrow> bybit_fetch_ohlcv ex symbol start_time end_time interval
      | INDEX_PRICE \<Rightarrow> bybit_fetch_index_price ex symbol start_time end_time interval
      | MARK_PRICE \<Rightarrow> bybit_fetch_mark_price ex symbol start_time end_time interval
      | FUNDING_RATE \<Rightarrow> bybit_fetch_funding_rate ex symbol start_time end_time
      | OPEN_INTEREST \<Rightarrow> bybit_fetch_open_interest ex symbol start_time end_time period
      | LONG_SHORT_RATIO \<Rightarrow>
          Some (bybit_fetch_long_short_ratio ex symbol start_time end_time period)
      | other \<Rightarrow>
          Some (Inl (NotImplementedError
                  (''Bybit adapter does not support '' @ dt_value data_type)), []))"

text \<open>The integer a row dict holds under \<open>timestamp\<close>, for stating what a converter keeps.\<close>

definition row_ts :: "dict \<Rightarrow> int" where
  "row_ts r = (case map_of r ''timestamp'' of Some (VInt i) \<Rightarrow> i | other \<Rightarrow> 0)"

section \<open>Example responses\<close>

definition ls_record :: "string \<Rightarrow> string \<Rightarrow> string \<Rightarrow> item" where
  "ls_record buy sell t =
     Obj [(''symbol'', VStr ''BTCUSDT''), (''buyRatio'', VStr buy), (''sellRatio'', VStr sell),
          (''timestamp'', VStr t)]"

definition bybit_page :: "item list \<Rightarrow> bybit_response" where
  "bybit_page xs = \<lparr>retCode = 0, result_list = xs, nextPageCursor = []\<rparr>"

section \<open>Frame helpers shared by the adapters\<close>






section \<open>Binance adapter (market\_data/infra/binance.py)\<close>


















section \<open>Symbol helpers\<close>











section \<open>OKX adapter (market\_data/infra/okx.py)\<close>





























section \<open>Kraken adapter (market\_data/infra/kraken.py)\<close>














section \<open>Coinbase adapter (market\_data/infra/coinbase.py)\<close>











section \<open>Phemex adapter (market\_data/infra/phemex.py)\<close>















section \<open>Upbit adapter (market\_data/infra/upbit.py)\<close>












section \<open>More example responses\<close>











section \<open>Statements about pagination\<close>



section \<open>Properties of the source factory\<close>

lemma lower_binance: "lower ''BiNaNcE'' = ''binance''"
  by code_simp

text \<open>
  C4. \<open>create_source\<close> registers only Binance and Kraken: the name \<open>bybit\<close>, which the
  claim (and the repository's own tests) expect to yield the Bybit adapter, is answered
  with the value error that lists \<open>binance, kraken\<close>.
\<close>

theorem create_source_bybit_unsupported:
  "fst (create_source [] ''bybit'') =
     Inl (ValueError (''Unsupported exchange: '' @ [CHR 0x27] @ ''bybit'' @ [CHR 0x27]
            @ ''. Supported: binance, kraken''))"
  by code_simp

section \<open>Properties of the transport\<close>


lemma request_from_429_prefix:
  "(\<And>i. i < n \<Longrightarrow> status_of (session (a + i)) = Some 429) \<Longrightarrow>
   request_from session mr rls url (n + k) a =
     (fst (request_from session mr rls url k (a + n)),
      backoff_trace url a n @ snd (request_from session mr rls url k (a + n)))"
proof (induction n arbitrary: a)
  case 0
  then show ?case by simp
next
  case (Suc n)
  have here: "status_of (session a) = Some 429"
    using Suc.prems [of 0] by simp
  have rest: "\<And>i. i < n \<Longrightarrow> status_of (session (Suc a + i)) = Some 429"
    using Suc.prems by (metis Suc_mono add_Suc_shift)
  have ih: "request_from session mr rls url (n + k) (Suc a) =
     (fst (request_from session mr rls url k (Suc a + n)),
      backoff_trace url (Suc a) n @ snd (request_from session mr rls url k (Suc a + n)))"
    by (rule Suc.IH [OF rest])
  obtain resp where r: "session a = Response resp" "status_code resp = 429"
    using here by (auto simp: status_of_def split: get_outcome.splits)
  show ?case
    using r ih by simp
qed


lemma count_backoff_gets: "length (filter is_get (backoff_trace url a n)) = n"
  by (induction n arbitrary: a) auto




text \<open>
  C6. Whatever the attempt, a response whose status is neither 200 nor 429 ends
  \<open>_request\<close> at once: 418 with the error \<open>IP banned by Binance: <body>\<close>, any other status
  with \<open>HTTP <status>: <body>\<close>; nothing follows the call that received it (no sleep, no
  further \<open>session.get\<close>). In a whole \<open>_request\<close> whose attempts 0..n-1 were answered 429, such
  a response at attempt \<open>n\<close> makes \<open>n + 1\<close> the number of HTTP requests issued, and with
  \<open>n = 0\<close> the only effect of the call is that one request.
\<close>

theorem request_fails_fast:
  assumes "status_of (session n) = Some st" and "st \<noteq> 200" and "st \<noteq> 429"
  shows "request_from session max_retries rls url (Suc k) n =
           (Inl (status_error st (text_of (session n))), [HttpGet url])
         \<and> ((\<forall>i < n. status_of (session i) = Some 429) \<and> n < nat max_retries \<longrightarrow>
           fst (request session max_retries rls url) = Inl (status_error st (text_of (session n)))
           \<and> snd (request session max_retries rls url) = backoff_trace url 0 n @ [HttpGet url]
           \<and> length (filter is_get (snd (request session max_retries rls url))) = n + 1)"
proof (intro conjI impI)
  obtain resp where r: "session n = Response resp" "status_code resp = st"
    using assms(1) by (auto simp: status_of_def split: get_outcome.splits)
  show now: "request_from session max_retries rls url (Suc k) n =
           (Inl (status_error st (text_of (session n))), [HttpGet url])" for k
    using r assms(2,3) by (simp add: status_error_def text_of_def)
  assume h: "(\<forall>i < n. status_of (session i) = Some 429) \<and> n < nat max_retries"
  then obtain j where j: "nat max_retries = n + Suc j"
    by (metis less_iff_Suc_add add_Suc_right)
  have "request session max_retries rls url =
      (fst (request_from session max_retries rls url (Suc j) (0 + n)),
       backoff_trace url 0 n @ snd (request_from session max_retries rls url (Suc j) (0 + n)))"
    unfolding request_def j
    using request_from_429_prefix [of n session 0 max_retries rls url "Suc j"] h by simp
  then have all: "request session max_retries rls url =
      (Inl (status_error st (text_of (session n))), backoff_trace url 0 n @ [HttpGet url])"
    using now [of j] by simp
  show "fst (request session max_retries rls url) = Inl (status_error st (text_of (session n)))"
    by (simp add: all)
  show "snd (request session max_retries rls url) = backoff_trace url 0 n @ [HttpGet url]"
    by (simp add: all)
  show "length (filter is_get (snd (request session max_retries rls url))) = n + 1"
    by (simp add: all count_backoff_gets)
qed

theorem request_fails_fast_witness:
  "request (mock_seq [] (reply 418 ''teapot'')) 3 (1 / 10) ''u'' =
     (Inl (RuntimeError ''IP banned by Binance: teapot''), [HttpGet ''u''])
   \<and> request (mock_seq [reply 429 ''busy''] (reply 500 ''oops'')) 3 (1 / 10) ''u'' =
     (Inl (RuntimeError ''HTTP 500: oops''), [HttpGet ''u'', Sleep 2, HttpGet ''u''])"
proof -
  let ?ban = "mock_seq [] (reply 418 ''teapot'')"
  let ?err = "mock_seq [reply 429 ''busy''] (reply 500 ''oops'')"
  have b: "status_of (?ban 0) = Some 418" "text_of (?ban 0) = ''teapot''"
    by (simp_all add: mock_seq_def reply_def status_of_def text_of_def)
  have e: "status_of (?err 1) = Some 500" "text_of (?err 1) = ''oops''"
      "\<forall>i < 1. status_of (?err i) = Some 429"
    by (simp_all add: mock_seq_def reply_def status_of_def text_of_def)
  have m: "status_error 418 ''teapot'' = RuntimeError ''IP banned by Binance: teapot''"
      "status_error 500 ''oops'' = RuntimeError ''HTTP 500: oops''"
    by code_simp+
  have "request ?ban 3 (1 / 10) ''u'' = (Inl (status_error 418 (text_of (?ban 0))), [] @ [HttpGet ''u''])"
    using request_fails_fast [of ?ban 0 418 3 "1 / 10" "''u''" 0] b(1)
    by (simp add: prod_eq_iff)
  moreover have "request ?err 3 (1 / 10) ''u'' =
      (Inl (status_error 500 (text_of (?err 1))), backoff_trace ''u'' 0 1 @ [HttpGet ''u''])"
    using request_fails_fast [of ?err 1 500 3 "1 / 10" "''u''" 0] e(1,3)
    by (simp add: prod_eq_iff)
  ultimately show ?thesis
    using b e m by simp
qed

section \<open>Properties of the time conversion\<close>








section \<open>Properties of the Bybit long/short ratio\<close>



lemma bindE_Inr_iff: "bindE m f = Inr y \<longleftrightarrow> (\<exists>x. m = Inr x \<and> f x = Inr y)"
  by (cases m) (auto simp: bindE_def)


lemma mapE_Inr_all2: "mapE f xs = Inr ys \<Longrightarrow> list_all2 (\<lambda>x y. f x = Inr y) xs ys"
  by (induction xs arbitrary: ys) (auto split: sum.splits)

lemma mapE_Inr_length: "mapE f xs = Inr ys \<Longrightarrow> length ys = length xs"
  by (drule mapE_Inr_all2) (simp add: list_all2_lengthD)


lemma mapE_total: "(\<And>x. x \<in> set xs \<Longrightarrow> f x = Inr (g x)) \<Longrightarrow> mapE f xs = Inr (map g xs)"
  by (induction xs) auto


lemma select_columns_lookup:
  assumes "select_columns df cs = Inr df'" and "c \<in> set cs"
  shows "map_of df' c = map_of df c"
proof -
  have d: "distinct cs"
    using assms(1) by (auto simp: select_columns_def split: if_splits)
  have "list_all2 (\<lambda>c p. (case map_of df c of None \<Rightarrow> Inl (KeyError c) | Some vs \<Rightarrow> Inr (c, vs)) = Inr p) cs df'"
    using assms(1) by (auto simp: select_columns_def split: if_splits dest: mapE_Inr_all2)
  then have "list_all2 (\<lambda>c p. fst p = c \<and> map_of df c = Some (snd p)) cs df'"
    by (rule list_all2_mono) (auto split: option.splits)
  then show ?thesis
    using d assms(2)
  proof (induction cs df' rule: list_all2_induct)
    case Nil
    then show ?case by simp
  next
    case (Cons x xs y ys)
    then show ?case by (cases y) auto
  qed
qed

lemma set_column_lookup:
  "map_of (set_column df c vs) c' = (if c' = c then Some vs else map_of df c')"
  by (simp add: set_column_def update_conv')

lemma set_column_lookup_same: "map_of (set_column df c vs) c = Some vs"
  by (simp add: set_column_lookup)


lemma take_rows_lookup:
  "map_of (take_rows perm df) c = map_option (\<lambda>vs. map (\<lambda>i. vs ! i) perm) (map_of df c)"
  unfolding take_rows_def by (induction df) auto


lemma sort_perm:
  fixes ks :: "int list"
  defines "srt \<equiv> sort_key fst (zip ks [0 ..< length ks])"
  shows "map (\<lambda>i. ks ! i) (map snd srt) = map fst srt" and "sorted (map fst srt)"
    and "mset (map fst srt) = mset ks"
proof -
  have "set srt = set (zip ks [0 ..< length ks])"
    by (simp add: srt_def)
  then have "\<And>p. p \<in> set srt \<Longrightarrow> ks ! snd p = fst p"
    by (auto simp: set_zip)
  then show "map (\<lambda>i. ks ! i) (map snd srt) = map fst srt"
    by (induction srt) auto
  show "sorted (map fst srt)"
    by (simp add: srt_def)
  have "mset srt = mset (zip ks [0 ..< length ks])"
    by (simp add: srt_def)
  then have "mset (map fst srt) = mset (map fst (zip ks [0 ..< length ks]))"
    by (metis mset_map)
  then show "mset (map fst srt) = mset ks"
    by simp
qed

lemma order_key_times: "mapE order_key (map VTime ts) = Inr ts"
  by (induction ts) (auto simp: order_key_def)

lemma those_times_VTime: "those_times (map VTime ts) = Some ts"
  by (induction ts) (auto simp: those_times_def List.map_filter_simps list_all_iff)

lemma those_times_comp: "those_times (map (VTime \<circ> f) xs) = Some (map f xs)"
  using those_times_VTime [of "map f xs"] by simp

lemma sort_values_times:
  assumes "sort_values df c = Inr df'" and "map_of df c = Some (map VTime ts)"
  shows "\<exists>ts'. map_of df' c = Some (map VTime ts') \<and> sorted ts' \<and> mset ts' = mset ts"
proof -
  let ?srt = "sort_key fst (zip ts [0 ..< length ts])"
  have df': "df' = take_rows (map snd ?srt) df"
    using assms by (auto simp: sort_values_def get_column_def bindE_Inr_iff order_key_times)
  have "map (\<lambda>i. map VTime ts ! i) (map snd ?srt) = map VTime (map (\<lambda>i. ts ! i) (map snd ?srt))"
  proof -
    have "\<And>p. p \<in> set ?srt \<Longrightarrow> snd p < length ts"
      by (auto simp: set_zip)
    then show ?thesis by (induction ?srt) auto
  qed
  then have "map_of df' c = Some (map VTime (map fst ?srt))"
    using assms(2) sort_perm(1) [of ts] by (simp add: df' take_rows_lookup)
  then show ?thesis
    using sort_perm(2,3) [of ts] by blast
qed


lemma to_datetime_unit_ints: "to_datetime_unit u (map VInt ks) = Inr (map (\<lambda>k. VTime (k * u)) ks)"
  unfolding to_datetime_unit_def by (induction ks) auto

lemma map_of_tabulate: "map_of (map (\<lambda>k. (k, g k)) ks) k = (if k \<in> set ks then Some (g k) else None)"
  by (induction ks) auto

lemma frame_of_dicts_lookup:
  assumes "\<And>r. r \<in> set rows \<Longrightarrow> map_of r k = Some (f r)" and "rows \<noteq> []"
  shows "map_of (frame_of_dicts rows) k = Some (map f rows)"
proof -
  obtain r where r: "r \<in> set rows" using assms(2) by (cases rows) auto
  then have "k \<in> fst ` set r"
    using assms(1) [OF r] by (metis map_of_eq_None_iff option.distinct(1))
  then have "k \<in> set (first_seen (concat (map (map fst) rows)))"
    using r by (auto simp: first_seen_def)
  moreover have "map (\<lambda>r. case map_of r k of None \<Rightarrow> nan | Some v \<Rightarrow> v) rows = map f rows"
    using assms(1) by (induction rows) auto
  ultimately show ?thesis
    unfolding frame_of_dicts_def by (simp add: map_of_tabulate)
qed

lemma timestamps_select:
  assumes "select_columns df cs = Inr df'" and "''timestamp'' \<in> set cs"
  shows "timestamps df' = timestamps df"
  using select_columns_lookup [OF assms] by (simp add: timestamps_def)


lemma to_datetime_unit_map:
  "to_datetime_unit u (map (\<lambda>r. VInt (k r)) rows) = Inr (map VTime (map (\<lambda>r. k r * u) rows))"
  unfolding to_datetime_unit_def by (induction rows) auto

lemma rows_to_frame_times:
  assumes "rows_to_frame rows b cs = Inr df" and "''timestamp'' \<in> set cs" and "rows \<noteq> []"
    and "\<And>r. r \<in> set rows \<Longrightarrow> map_of r ''timestamp'' = Some (VInt (k r))"
  shows "\<exists>ts. timestamps df = Some ts
           \<and> (if b then sorted ts \<and> mset ts = mset (map (\<lambda>r. k r * ns_per_ms) rows)
               else ts = map (\<lambda>r. k r * ns_per_ms) rows)"
proof -
  let ?df0 = "frame_of_dicts rows"
  let ?ts = "map (\<lambda>r. k r * ns_per_ms) rows"
  have col: "get_column ?df0 ''timestamp'' = Inr (map (\<lambda>r. VInt (k r)) rows)"
    using frame_of_dicts_lookup [of rows "''timestamp''" "\<lambda>r. VInt (k r)"] assms(3,4)
    by (simp add: get_column_def)
  have conv: "to_datetime_unit ns_per_ms (map (\<lambda>r. VInt (k r)) rows) = Inr (map VTime ?ts)"
    by (rule to_datetime_unit_map)
  obtain col0 tsv df2 where g: "get_column ?df0 ''timestamp'' = Inr col0"
      and t: "to_datetime_unit ns_per_ms col0 = Inr tsv"
      and df2: "(if b then sort_values (set_column ?df0 ''timestamp'' tsv) ''timestamp''
                 else Inr (set_column ?df0 ''timestamp'' tsv)) = Inr df2"
      and sel: "select_columns df2 cs = Inr df"
    using assms(1) unfolding rows_to_frame_def Let_def bindE_Inr_iff by blast
  have "col0 = map (\<lambda>r. VInt (k r)) rows"
    using g col by simp
  then have tsv: "tsv = map VTime ?ts"
    using t conv by simp
  let ?df1 = "set_column ?df0 ''timestamp'' tsv"
  have l1: "map_of ?df1 ''timestamp'' = Some (map VTime ?ts)"
    unfolding tsv by (rule set_column_lookup_same)
  show ?thesis
  proof (cases b)
    case True
    then have "sort_values ?df1 ''timestamp'' = Inr df2" using df2 by simp
    from sort_values_times [OF this l1]
    obtain ts' where "map_of df2 ''timestamp'' = Some (map VTime ts')" "sorted ts'" "mset ts' = mset ?ts"
      by blast
    then show ?thesis
      using True timestamps_select [OF sel assms(2)]
      by (auto simp: timestamps_def those_times_VTime)
  next
    case False
    then have "df2 = ?df1" using df2 by simp
    then show ?thesis
      using False l1 timestamps_select [OF sel assms(2)]
      by (auto simp: timestamps_def those_times_VTime those_times_comp)
  qed
qed

lemma all2_mapE: "list_all2 (\<lambda>x y. f x = Inr (g y)) xs ys \<Longrightarrow> mapE f xs = Inr (map g ys)"
  by (induction xs ys rule: list_all2_induct) auto

lemma all2_right: "list_all2 P xs ys \<Longrightarrow> y \<in> set ys \<Longrightarrow> \<exists>x \<in> set xs. P x y"
  by (induction xs ys rule: list_all2_induct) auto

lemma bybit_ls_row_ts:
  "bybit_ls_row it = Inr r \<Longrightarrow>
     map_of r ''timestamp'' = Some (VInt (row_ts r)) \<and> int_field it ''timestamp'' = Inr (row_ts r)"
  by (auto simp: bybit_ls_row_def bindE_Inr_iff row_ts_def)



lemma bybit_ls_unfold:
  "fst (bybit_fetch_long_short_ratio ex symbol start_time end_time period) =
     (if retCode (ex 0 (bybit_ls_request symbol period)) \<noteq> 0
      then Inl (RuntimeError ''Bybit API error'')
      else if result_list (ex 0 (bybit_ls_request symbol period)) = [] then Inr empty_frame
      else bindE (mapE bybit_ls_row (result_list (ex 0 (bybit_ls_request symbol period))))
             (\<lambda>rows. rows_to_frame rows True (columns LONG_SHORT_RATIO)))"
  by (simp add: bybit_fetch_long_short_ratio_def bybit_api_get_def bindE_def Let_def
      del: columns.simps)



text \<open>
  C9. Bybit's fetch for \<open>LONG_SHORT_RATIO\<close> issues exactly one request, with the fixed
  limit 500 and neither start nor end among its parameters; its result does not depend
  on the start and end arguments; and when the exchange returns rows, the timestamps of
  the table are those of all the rows returned, sorted ascending, with no comparison
  against the requested range.
\<close>

theorem bybit_long_short_ratio_ignores_range:
  "snd (bybit_fetch_long_short_ratio ex symbol start_time end_time period) =
     [\<lparr>req_url = ''https://api.bybit.com/v5/market/account-ratio'',
       req_params = [(''category'', VStr ''linear''), (''symbol'', VStr symbol),
                     (''period'', get_or_self bybit_PERIOD_MAP period), (''limit'', VInt 500)]\<rparr>]
   \<and> bybit_fetch ex LONG_SHORT_RATIO symbol start_time end_time interval period =
       bybit_fetch ex LONG_SHORT_RATIO symbol start_time' end_time' interval period
   \<and> (bybit_fetch ex LONG_SHORT_RATIO symbol start_time end_time interval period
         = Some (Inr df, reqs)
       \<and> result_list (ex 0 (bybit_ls_request symbol period)) \<noteq> [] \<longrightarrow>
       (\<exists>ks ts. mapE (\<lambda>it. int_field it ''timestamp'')
                  (result_list (ex 0 (bybit_ls_request symbol period))) = Inr ks
          \<and> timestamps df = Some ts \<and> sorted ts
          \<and> mset ts = mset (map (\<lambda>k. k * ns_per_ms) ks)))"
proof (intro conjI impI)
  show "snd (bybit_fetch_long_short_ratio ex symbol start_time end_time period) =
     [\<lparr>req_url = ''https://api.bybit.com/v5/market/account-ratio'',
       req_params = [(''category'', VStr ''linear''), (''symbol'', VStr symbol),
                     (''period'', get_or_self bybit_PERIOD_MAP period), (''limit'', VInt 500)]\<rparr>]"
    by (simp add: bybit_fetch_long_short_ratio_def bybit_ls_request_def bybit_BASE_URL_def)
  show "bybit_fetch ex LONG_SHORT_RATIO symbol start_time end_time interval period =
       bybit_fetch ex LONG_SHORT_RATIO symbol start_time' end_time' interval period"
    by (simp add: bybit_fetch_def bybit_fetch_long_short_ratio_def)
next
  let ?items = "result_list (ex 0 (bybit_ls_request symbol period))"
  assume a: "bybit_fetch ex LONG_SHORT_RATIO symbol start_time end_time interval period
         = Some (Inr df, reqs) \<and> ?items \<noteq> []"
  then have f: "fst (bybit_fetch_long_short_ratio ex symbol start_time end_time period) = Inr df"
    by (simp add: bybit_fetch_def)
  have "bindE (mapE bybit_ls_row ?items)
             (\<lambda>rows. rows_to_frame rows True (columns LONG_SHORT_RATIO)) = Inr df"
    using f a unfolding bybit_ls_unfold by (simp del: columns.simps split: if_splits)
  then obtain rows where rows: "mapE bybit_ls_row ?items = Inr rows"
      and fr: "rows_to_frame rows True (columns LONG_SHORT_RATIO) = Inr df"
    unfolding bindE_Inr_iff by blast
  have all2: "list_all2 (\<lambda>it r. bybit_ls_row it = Inr r) ?items rows"
    by (rule mapE_Inr_all2 [OF rows])
  then have "list_all2 (\<lambda>it r. int_field it ''timestamp'' = Inr (row_ts r)) ?items rows"
    by (rule list_all2_mono) (simp add: bybit_ls_row_ts)
  then have ks: "mapE (\<lambda>it. int_field it ''timestamp'') ?items = Inr (map row_ts rows)"
    by (rule all2_mapE)
  have ne: "rows \<noteq> []"
    using a mapE_Inr_length [OF rows] by auto
  have rt: "map_of r ''timestamp'' = Some (VInt (row_ts r))" if "r \<in> set rows" for r
    using all2_right [OF all2 that] by (auto simp: bybit_ls_row_ts)
  have "''timestamp'' \<in> set (columns LONG_SHORT_RATIO)"
    by simp
  from rows_to_frame_times [OF fr this ne rt]
  obtain ts where ts: "timestamps df = Some ts" "sorted ts"
      "mset ts = mset (map (\<lambda>r. row_ts r * ns_per_ms) rows)"
    by auto
  have "map (\<lambda>r. row_ts r * ns_per_ms) rows = map (\<lambda>k. k * ns_per_ms) (map row_ts rows)"
    by (simp add: comp_def)
  then have "mset ts = mset (map (\<lambda>k. k * ns_per_ms) (map row_ts rows))"
    using ts(3) by (simp only:)
  then show "\<exists>ks ts. mapE (\<lambda>it. int_field it ''timestamp'') ?items = Inr ks
          \<and> timestamps df = Some ts \<and> sorted ts
          \<and> mset ts = mset (map (\<lambda>k. k * ns_per_ms) ks)"
    using ks ts(1,2) by blast
qed


theorem bybit_long_short_ratio_ignores_range_witness:
  "result_list (mock_pages [] (bybit_page [ls_record ''0.6'' ''0.4'' ''2000'',
       ls_record ''0.5'' ''0'' ''1000'']) 0 (bybit_ls_request ''BTCUSDT'' (Some ''1h''))) \<noteq> []
   \<and> bybit_fetch (mock_pages [] (bybit_page [ls_record ''0.6'' ''0.4'' ''2000'',
       ls_record ''0.5'' ''0'' ''1000''])) LONG_SHORT_RATIO ''BTCUSDT'' (TInt 5000) (TInt 6000)
       None (Some ''1h'') =
     Some (Inr [(''timestamp'', [VTime 1000000000, VTime 2000000000]),
                (''symbol'', [VStr ''BTCUSDT'', VStr ''BTCUSDT'']),
                (''long_short_ratio'', [VFloat NaN, VFloat (Fin (3 / 2))]),
                (''long_account'', [VFloat (Fin (1 / 2)), VFloat (Fin (3 / 5))]),
                (''short_account'', [VFloat (Fin 0), VFloat (Fin (2 / 5))])],
           [\<lparr>req_url = ''https://api.bybit.com/v5/market/account-ratio'',
             req_params = [(''category'', VStr ''linear''), (''symbol'', VStr ''BTCUSDT''),
                           (''period'', VStr ''1h''), (''limit'', VInt 500)]\<rparr>])
   \<and> timestamps [(''timestamp'', [VTime 1000000000, VTime 2000000000]),
                (''symbol'', [VStr ''BTCUSDT'', VStr ''BTCUSDT'']),
                (''long_short_ratio'', [VFloat NaN, VFloat (Fin (3 / 2))]),
                (''long_account'', [VFloat (Fin (1 / 2)), VFloat (Fin (3 / 5))]),
                (''short_account'', [VFloat (Fin 0), VFloat (Fin (2 / 5))])]
       = Some [1000000000, 2000000000]"
proof -
  let ?ex = "mock_pages [] (bybit_page [ls_record ''0.6'' ''0.4'' ''2000'',
       ls_record ''0.5'' ''0'' ''1000''])"
  let ?df = "[(''timestamp'', [VTime 1000000000, VTime 2000000000]),
                (''symbol'', [VStr ''BTCUSDT'', VStr ''BTCUSDT'']),
                (''long_short_ratio'', [VFloat NaN, VFloat (Fin (3 / 2))]),
                (''long_account'', [VFloat (Fin (1 / 2)), VFloat (Fin (3 / 5))]),
                (''short_account'', [VFloat (Fin 0), VFloat (Fin (2 / 5))])]"
  let ?reqs = "[\<lparr>req_url = ''https://api.bybit.com/v5/market/account-ratio'',
             req_params = [(''category'', VStr ''linear''), (''symbol'', VStr ''BTCUSDT''),
                           (''period'', VStr ''1h''), (''limit'', VInt 500)]\<rparr>]"
  have h1: "result_list (?ex 0 (bybit_ls_request ''BTCUSDT'' (Some ''1h''))) \<noteq> []"
    by code_simp
  have h2: "bybit_fetch ?ex LONG_SHORT_RATIO ''BTCUSDT'' (TInt 5000) (TInt 6000) None (Some ''1h'')
      = Some (Inr ?df, ?reqs)"
    by code_simp
  have t: "timestamps ?df = Some [1000000000, 2000000000]"
    by code_simp
  from bybit_long_short_ratio_ignores_range
    [of ?ex "''BTCUSDT''" "TInt 5000" "TInt 6000" "Some ''1h''" None "TInt 0" "TInt 0" ?df ?reqs]
    h1 h2
  have "\<exists>ks ts. mapE (\<lambda>it. int_field it ''timestamp'')
          (result_list (?ex 0 (bybit_ls_request ''BTCUSDT'' (Some ''1h'')))) = Inr ks
        \<and> timestamps ?df = Some ts \<and> sorted ts \<and> mset ts = mset (map (\<lambda>k. k * ns_per_ms) ks)"
    by blast
  then show ?thesis
    using h1 h2 t by simp
qed

section \<open>Properties of the pagination loops\<close>

















section \<open>Properties of the returned tables\<close>














































end
